theory Spec2Isabelle
  imports Main "HOL-Library.Word"
begin

section \<open>The flash file system's private header: constants and records\<close>

text \<open>
  The development follows \<^verbatim>\<open>src/ffs_priv.h\<close>. The header fixes the magic numbers, the
  flag bits, the sentinels, the three on-disk structures and the in-RAM structures of
  the file system, and it declares the functions that work on them.
\<close>

type_synonym u8 = "8 word"
type_synonym u16 = "16 word"
type_synonym u32 = "32 word"

subsection \<open>Preprocessor constants\<close>

definition FFS_ID_NONE :: u32 where
  "FFS_ID_NONE = 0xffffffff"

definition FFS_AREA_MAGIC0 :: u32 where
  "FFS_AREA_MAGIC0 = 0xb98a31e2"

definition FFS_AREA_MAGIC1 :: u32 where
  "FFS_AREA_MAGIC1 = 0x7fb0428c"

definition FFS_AREA_MAGIC2 :: u32 where
  "FFS_AREA_MAGIC2 = 0xace08253"

definition FFS_AREA_MAGIC3 :: u32 where
  "FFS_AREA_MAGIC3 = 0xb185fc8e"

definition FFS_BLOCK_MAGIC :: u32 where
  "FFS_BLOCK_MAGIC = 0x53ba23b9"

definition FFS_INODE_MAGIC :: u32 where
  "FFS_INODE_MAGIC = 0x925f8bc0"

definition FFS_AREA_ID_SCRATCH :: u16 where
  "FFS_AREA_ID_SCRATCH = 0xffff"

definition FFS_AREA_OFFSET_IS_SCRATCH :: nat where
  "FFS_AREA_OFFSET_IS_SCRATCH = 23"

definition FFS_SHORT_FILENAME_LEN :: nat where
  "FFS_SHORT_FILENAME_LEN = 16"

definition FFS_BLOCK_SIZE :: nat where
  "FFS_BLOCK_SIZE = 512"

definition FFS_HASH_SIZE :: nat where
  "FFS_HASH_SIZE = 256"

definition FFS_MAX_AREAS :: nat where
  "FFS_MAX_AREAS = 32"

text \<open>
  The flag macros are plain integer constants; the code combines them with the 8-bit
  \<^verbatim>\<open>fi_flags\<close> and \<^verbatim>\<open>fb_flags\<close> and with the 16-bit \<^verbatim>\<open>fdi_flags\<close> and
  \<^verbatim>\<open>fdb_flags\<close>.
\<close>

definition FFS_INODE_F_DELETED :: nat where
  "FFS_INODE_F_DELETED = 0x01"

definition FFS_INODE_F_DUMMY :: nat where
  "FFS_INODE_F_DUMMY = 0x02"

definition FFS_INODE_F_DIRECTORY :: nat where
  "FFS_INODE_F_DIRECTORY = 0x04"

definition FFS_INODE_F_TEST :: nat where
  "FFS_INODE_F_TEST = 0x80"

definition FFS_BLOCK_F_DELETED :: nat where
  "FFS_BLOCK_F_DELETED = 0x01"

definition FFS_BLOCK_MAX_DATA_SZ :: nat where
  "FFS_BLOCK_MAX_DATA_SZ = 2048"

definition FFS_OBJECT_TYPE_INODE :: nat where
  "FFS_OBJECT_TYPE_INODE = 1"

definition FFS_OBJECT_TYPE_BLOCK :: nat where
  "FFS_OBJECT_TYPE_BLOCK = 2"

subsection \<open>Structure declarations and their layout\<close>

text \<open>
  A structure declaration is the list of its members, in the order of the declaration,
  each with its C type. The three on-disk structures use \<^verbatim>\<open>uint8_t\<close>,
  \<^verbatim>\<open>uint16_t\<close>, \<^verbatim>\<open>uint32_t\<close> and one array.
\<close>

datatype ctype = Uint8 | Uint16 | Uint32 | Array ctype nat

type_synonym member = "string \<times> ctype"

fun sizeof_ctype :: "ctype \<Rightarrow> nat" where
  "sizeof_ctype Uint8 = 1"
| "sizeof_ctype Uint16 = 2"
| "sizeof_ctype Uint32 = 4"
| "sizeof_ctype (Array t n) = n * sizeof_ctype t"

definition ffs_disk_block :: "member list" where
  "ffs_disk_block =
     [(''fdb_magic'', Uint32),
      (''fdb_id'', Uint32),
      (''fdb_seq'', Uint32),
      (''fdb_rank'', Uint32),
      (''fdb_inode_id'', Uint32),
      (''reserved16'', Uint16),
      (''fdb_flags'', Uint16),
      (''fdb_data_len'', Uint16),
      (''fdb_ecc'', Uint32)]"

definition ffs_disk_inode :: "member list" where
  "ffs_disk_inode =
     [(''fdi_magic'', Uint32),
      (''fdi_id'', Uint32),
      (''fdi_seq'', Uint32),
      (''fdi_parent_id'', Uint32),
      (''fdi_flags'', Uint16),
      (''fdi_filename_len'', Uint8),
      (''fdi_ecc'', Uint32)]"

definition ffs_disk_area :: "member list" where
  "ffs_disk_area =
     [(''fds_magic'', Array Uint32 4),
      (''fds_length'', Uint32),
      (''reserved16'', Uint16),
      (''fds_seq'', Uint8),
      (''fds_is_scratch'', Uint8)]"

text \<open>
  The header comments say what follows each record on the medium: the block structure is
  ``followed by 'length' bytes of data'', the inode structure is ``followed by
  filename''. The pair names the payload and the member that holds its length.
\<close>

definition ffs_disk_block_payload :: "string \<times> string" where
  "ffs_disk_block_payload = (''data'', ''fdb_data_len'')"

definition ffs_disk_inode_payload :: "string \<times> string" where
  "ffs_disk_inode_payload = (''filename'', ''fdi_filename_len'')"

text \<open>
  The declarations carry no packing attribute, so where a member lies is the compiler's
  choice. Every C implementation the code is built for lays a structure out by one rule:
  a member goes to the next offset that is a multiple of its alignment, an array is
  aligned as its element, and the size of the structure is rounded up to the largest
  alignment of its members. What the header cannot say is the alignment of the scalar
  types: that is the parameter \<open>abi\<close>. A \<^verbatim>\<open>uint8_t\<close> has alignment 1 always.
\<close>

record abi =
  align16 :: nat
  align32 :: nat

definition natural_abi :: abi where
  "natural_abi = \<lparr>align16 = 2, align32 = 4\<rparr>"

definition packed_abi :: abi where
  "packed_abi = \<lparr>align16 = 1, align32 = 1\<rparr>"

text \<open>C requires the size of a type to be a multiple of its alignment.\<close>

definition valid_abi :: "abi \<Rightarrow> bool" where
  "valid_abi a =
     ((align16 a = 1 \<or> align16 a = 2) \<and>
      (align32 a = 1 \<or> align32 a = 2 \<or> align32 a = 4))"

fun alignof_ctype :: "abi \<Rightarrow> ctype \<Rightarrow> nat" where
  "alignof_ctype a Uint8 = 1"
| "alignof_ctype a Uint16 = align16 a"
| "alignof_ctype a Uint32 = align32 a"
| "alignof_ctype a (Array t n) = alignof_ctype a t"

definition align_up :: "nat \<Rightarrow> nat \<Rightarrow> nat" where
  "align_up al pos = ((pos + al - 1) div al) * al"

fun layout :: "abi \<Rightarrow> nat \<Rightarrow> member list \<Rightarrow> (string \<times> nat) list" where
  "layout a pos [] = []"
| "layout a pos ((nm, ty) # ms) =
     (nm, align_up (alignof_ctype a ty) pos)
       # layout a (align_up (alignof_ctype a ty) pos + sizeof_ctype ty) ms"

fun layout_end :: "abi \<Rightarrow> nat \<Rightarrow> member list \<Rightarrow> nat" where
  "layout_end a pos [] = pos"
| "layout_end a pos ((nm, ty) # ms) =
     layout_end a (align_up (alignof_ctype a ty) pos + sizeof_ctype ty) ms"

fun struct_align :: "abi \<Rightarrow> member list \<Rightarrow> nat" where
  "struct_align a [] = 1"
| "struct_align a ((nm, ty) # ms) = max (alignof_ctype a ty) (struct_align a ms)"

definition offsetof :: "abi \<Rightarrow> member list \<Rightarrow> string \<Rightarrow> nat option" where
  "offsetof a ms nm = map_of (layout a 0 ms) nm"

definition sizeof_struct :: "abi \<Rightarrow> member list \<Rightarrow> nat" where
  "sizeof_struct a ms = align_up (struct_align a ms) (layout_end a 0 ms)"

text \<open>
  \<^verbatim>\<open>FFS_BLOCK_DATA_LEN\<close> is \<^verbatim>\<open>FFS_BLOCK_SIZE - sizeof (struct ffs_disk_block)\<close>,
  computed in \<^verbatim>\<open>size_t\<close>; the structure is smaller than a block, so nothing wraps.
\<close>

definition FFS_BLOCK_DATA_LEN :: "abi \<Rightarrow> nat" where
  "FFS_BLOCK_DATA_LEN a = FFS_BLOCK_SIZE - sizeof_struct a ffs_disk_block"


text \<open>
  The packed layout, for comparison: every member starts where the one before it ends.
\<close>

fun packed_layout :: "nat \<Rightarrow> member list \<Rightarrow> (string \<times> nat) list" where
  "packed_layout pos [] = []"
| "packed_layout pos ((nm, ty) # ms) = (nm, pos) # packed_layout (pos + sizeof_ctype ty) ms"

subsection \<open>The record descriptions of the specification\<close>

text \<open>
  The specification lists the members of the two object records by their bare names and
  annotates some of them with a width in bits: inode record \<open>{magic, id, seq, parent_id,
  flags(u16), filename_len(u8), ecc(u32), filename[filename_len]}\<close>, block record
  \<open>{magic, id, seq, rank, inode_id, reserved16, flags(u16), data_len(u16), ecc(u32),
  data[data_len]}\<close>. A member without an annotation has width \<open>None\<close>; \<open>reserved16\<close>
  carries its width in its name.
\<close>

definition spec_disk_inode_record :: "(string \<times> nat option) list" where
  "spec_disk_inode_record =
     [(''magic'', None), (''id'', None), (''seq'', None), (''parent_id'', None),
      (''flags'', Some 16), (''filename_len'', Some 8), (''ecc'', Some 32)]"

definition spec_disk_block_record :: "(string \<times> nat option) list" where
  "spec_disk_block_record =
     [(''magic'', None), (''id'', None), (''seq'', None), (''rank'', None),
      (''inode_id'', None), (''reserved16'', Some 16), (''flags'', Some 16),
      (''data_len'', Some 16), (''ecc'', Some 32)]"

definition spec_disk_inode_payload :: "string \<times> string" where
  "spec_disk_inode_payload = (''filename'', ''filename_len'')"

definition spec_disk_block_payload :: "string \<times> string" where
  "spec_disk_block_payload = (''data'', ''data_len'')"

text \<open>The header description of the specification: the C types of the members, in order.\<close>

definition spec_disk_area_header :: "ctype list" where
  "spec_disk_area_header = [Array Uint32 4, Uint32, Uint16, Uint8, Uint8]"

text \<open>
  The code prefixes the members of a structure with a tag (\<^verbatim>\<open>fdi_\<close>, \<^verbatim>\<open>fdb_\<close>);
  \<open>strip_prefix\<close> removes it where it is present.
\<close>

definition strip_prefix :: "string \<Rightarrow> string \<Rightarrow> string" where
  "strip_prefix p s = (if take (length p) s = p then drop (length p) s else s)"

fun width_agrees :: "nat \<Rightarrow> nat option \<Rightarrow> bool" where
  "width_agrees b None = True"
| "width_agrees b (Some w) = (b = w)"

fun conforms :: "string \<Rightarrow> member list \<Rightarrow> (string \<times> nat option) list \<Rightarrow> bool" where
  "conforms p [] [] = True"
| "conforms p ((nm, ty) # ms) ((snm, w) # ss) =
     (strip_prefix p nm = snm \<and> width_agrees (8 * sizeof_ctype ty) w \<and> conforms p ms ss)"
| "conforms p [] (s # ss) = False"
| "conforms p (m # ms) [] = False"

definition member_bits :: "member list \<Rightarrow> nat list" where
  "member_bits ms = map (\<lambda>m. 8 * sizeof_ctype (snd m)) ms"

subsection \<open>In-RAM objects\<close>

text \<open>
  The header declares the in-RAM objects \<^verbatim>\<open>struct ffs_block\<close> and
  \<^verbatim>\<open>struct ffs_inode\<close>. The chain of \<^verbatim>\<open>fb_next\<close> links under the list head
  \<^verbatim>\<open>fi_block_list\<close> is the list of the blocks; the links to the hash chain, the
  siblings, the parent and the owning inode play no part below and are left out, as is
  the list of children that shares a union with the block list, and of the base object
  \<^verbatim>\<open>fb_base\<close> a block keeps its sequence number.
\<close>

record ffs_block =
  fb_seq :: u32
  fb_rank :: u32
  fb_data_len :: u16
  fb_flags :: u8

record ffs_inode =
  fi_block_list :: "ffs_block list"
  fi_data_len :: u32
  fi_filename_len :: u8
  fi_flags :: u8
  fi_refcnt :: u8
  fi_filename :: "u8 list"

subsection \<open>Reference counting\<close>

text \<open>
  Modelled from the spec: the body of \<^verbatim>\<open>ffs_inode_alloc\<close> is missing from the sources,
  which only declare it. The specification says that \<open>alloc\<close> ``zeroes and sets
  refcnt=1''.
\<close>

definition ffs_inode_alloc :: ffs_inode where
  "ffs_inode_alloc =
     \<lparr>fi_block_list = [], fi_data_len = 0, fi_filename_len = 0, fi_flags = 0,
      fi_refcnt = 1, fi_filename = replicate FFS_SHORT_FILENAME_LEN 0\<rparr>"

text \<open>
  Modelled from the spec: the body of \<^verbatim>\<open>ffs_file_open\<close> is missing from the sources,
  which only declare it. The specification says that \<open>open\<close> ``increments inode
  refcnt''. The counter is the \<^verbatim>\<open>uint8_t fi_refcnt\<close> of the header, so the increment
  is the one of an 8-bit unsigned integer.
\<close>

definition inc_refcnt :: "ffs_inode \<Rightarrow> ffs_inode" where
  "inc_refcnt inode = inode\<lparr>fi_refcnt := fi_refcnt inode + 1\<rparr>"

section \<open>Layout and constants\<close>

lemma strip_prefix_simps:
  "strip_prefix ''fdi_'' ''fdi_magic'' = ''magic''"
  "strip_prefix ''fdi_'' ''fdi_id'' = ''id''"
  "strip_prefix ''fdi_'' ''fdi_seq'' = ''seq''"
  "strip_prefix ''fdi_'' ''fdi_parent_id'' = ''parent_id''"
  "strip_prefix ''fdi_'' ''fdi_flags'' = ''flags''"
  "strip_prefix ''fdi_'' ''fdi_filename_len'' = ''filename_len''"
  "strip_prefix ''fdi_'' ''fdi_ecc'' = ''ecc''"
  "strip_prefix ''fdb_'' ''fdb_magic'' = ''magic''"
  "strip_prefix ''fdb_'' ''fdb_id'' = ''id''"
  "strip_prefix ''fdb_'' ''fdb_seq'' = ''seq''"
  "strip_prefix ''fdb_'' ''fdb_rank'' = ''rank''"
  "strip_prefix ''fdb_'' ''fdb_inode_id'' = ''inode_id''"
  "strip_prefix ''fdb_'' ''reserved16'' = ''reserved16''"
  "strip_prefix ''fdb_'' ''fdb_flags'' = ''flags''"
  "strip_prefix ''fdb_'' ''fdb_data_len'' = ''data_len''"
  "strip_prefix ''fdb_'' ''fdb_ecc'' = ''ecc''"
  by (simp_all add: strip_prefix_def)

lemma sizeof_disk_structs:
  "sizeof_struct natural_abi ffs_disk_inode = 24"
  "sizeof_struct natural_abi ffs_disk_block = 32"
  "sizeof_struct natural_abi ffs_disk_area = 24"
  "sizeof_struct packed_abi ffs_disk_inode = 23"
  "sizeof_struct packed_abi ffs_disk_block = 30"
  "sizeof_struct packed_abi ffs_disk_area = 24"
  by (simp_all add: sizeof_struct_def ffs_disk_inode_def ffs_disk_block_def ffs_disk_area_def
      natural_abi_def packed_abi_def align_up_def)

lemma block_data_len_values:
  "FFS_BLOCK_DATA_LEN natural_abi = 480"
  "FFS_BLOCK_DATA_LEN packed_abi = 482"
  by (simp_all add: FFS_BLOCK_DATA_LEN_def FFS_BLOCK_SIZE_def sizeof_disk_structs)

lemma valid_abi_examples: "valid_abi natural_abi" "valid_abi packed_abi"
  by (simp_all add: valid_abi_def natural_abi_def packed_abi_def)

lemma packed_abi_aligns: "align16 packed_abi = 1" "align32 packed_abi = 1"
  by (simp_all add: packed_abi_def)

lemma packed_layout_disk_inode:
  "packed_layout 0 ffs_disk_inode =
     [(''fdi_magic'', 0), (''fdi_id'', 4), (''fdi_seq'', 8), (''fdi_parent_id'', 12),
      (''fdi_flags'', 16), (''fdi_filename_len'', 18), (''fdi_ecc'', 19)]"
  by (simp add: ffs_disk_inode_def)

lemma packed_layout_disk_block:
  "packed_layout 0 ffs_disk_block =
     [(''fdb_magic'', 0), (''fdb_id'', 4), (''fdb_seq'', 8), (''fdb_rank'', 12),
      (''fdb_inode_id'', 16), (''reserved16'', 20), (''fdb_flags'', 22),
      (''fdb_data_len'', 24), (''fdb_ecc'', 26)]"
  by (simp add: ffs_disk_block_def)

lemma layout_disk_inode:
  assumes "valid_abi a"
  shows "layout a 0 ffs_disk_inode =
     [(''fdi_magic'', 0), (''fdi_id'', 4), (''fdi_seq'', 8), (''fdi_parent_id'', 12),
      (''fdi_flags'', 16), (''fdi_filename_len'', 18),
      (''fdi_ecc'', if align32 a = 1 then 19 else 20)]"
proof -
  from assms have "align32 a = 1 \<or> align32 a = 2 \<or> align32 a = 4"
    and "align16 a = 1 \<or> align16 a = 2"
    by (simp_all add: valid_abi_def)
  then show ?thesis
    by (elim disjE) (simp_all add: ffs_disk_inode_def align_up_def)
qed

lemma layout_disk_block:
  assumes "valid_abi a"
  shows "layout a 0 ffs_disk_block =
     [(''fdb_magic'', 0), (''fdb_id'', 4), (''fdb_seq'', 8), (''fdb_rank'', 12),
      (''fdb_inode_id'', 16), (''reserved16'', 20), (''fdb_flags'', 22),
      (''fdb_data_len'', 24), (''fdb_ecc'', if align32 a = 4 then 28 else 26)]"
proof -
  from assms have "align32 a = 1 \<or> align32 a = 2 \<or> align32 a = 4"
    and "align16 a = 1 \<or> align16 a = 2"
    by (simp_all add: valid_abi_def)
  then show ?thesis
    by (elim disjE) (simp_all add: ffs_disk_block_def align_up_def)
qed

text \<open>
  Claim C5. The magic numbers and the constants fixed by the layout have the values the
  specification gives: area magic \<open>{0xb98a31e2, 0x7fb0428c, 0xace08253, 0xb185fc8e}\<close>,
  block magic \<open>0x53ba23b9\<close>, inode magic \<open>0x925f8bc0\<close>, block size 512, block data
  length 512 minus the size of the disk block structure (under every layout), short
  filename length 16, hash size 256, at most 32 areas, and 2048 as the maximal block
  data size.
\<close>

theorem layout_constants:
  "[FFS_AREA_MAGIC0, FFS_AREA_MAGIC1, FFS_AREA_MAGIC2, FFS_AREA_MAGIC3] =
     [0xb98a31e2, 0x7fb0428c, 0xace08253, 0xb185fc8e] \<and>
   FFS_BLOCK_MAGIC = 0x53ba23b9 \<and>
   FFS_INODE_MAGIC = 0x925f8bc0 \<and>
   FFS_BLOCK_SIZE = 512 \<and>
   FFS_BLOCK_DATA_LEN a = 512 - sizeof_struct a ffs_disk_block \<and>
   FFS_SHORT_FILENAME_LEN = 16 \<and>
   FFS_HASH_SIZE = 256 \<and>
   FFS_MAX_AREAS = 32 \<and>
   FFS_BLOCK_MAX_DATA_SZ = 2048"
  by (simp add: FFS_AREA_MAGIC0_def FFS_AREA_MAGIC1_def FFS_AREA_MAGIC2_def
      FFS_AREA_MAGIC3_def FFS_BLOCK_MAGIC_def FFS_INODE_MAGIC_def FFS_BLOCK_SIZE_def
      FFS_BLOCK_DATA_LEN_def FFS_SHORT_FILENAME_LEN_def FFS_HASH_SIZE_def
      FFS_MAX_AREAS_def FFS_BLOCK_MAX_DATA_SZ_def)

text \<open>
  Claim C6. The inode flag bits are DELETED = 0x01, DUMMY = 0x02, DIRECTORY = 0x04 and
  TEST = 0x80, and the block flag bit is DELETED = 0x01. Each is a single bit (bits 0,
  1, 2 and 7), so each fits the 8-bit flags of the in-RAM objects as well as the 16-bit
  flags of the disk records.
\<close>

theorem flag_bits:
  "FFS_INODE_F_DELETED = 0x01 \<and>
   FFS_INODE_F_DUMMY = 0x02 \<and>
   FFS_INODE_F_DIRECTORY = 0x04 \<and>
   FFS_INODE_F_TEST = 0x80 \<and>
   FFS_BLOCK_F_DELETED = 0x01 \<and>
   [FFS_INODE_F_DELETED, FFS_INODE_F_DUMMY, FFS_INODE_F_DIRECTORY, FFS_INODE_F_TEST] =
     [2 ^ 0, 2 ^ 1, 2 ^ 2, 2 ^ 7] \<and>
   FFS_BLOCK_F_DELETED = 2 ^ 0 \<and>
   FFS_INODE_F_TEST < 2 ^ 8"
  by (simp add: FFS_INODE_F_DELETED_def FFS_INODE_F_DUMMY_def FFS_INODE_F_DIRECTORY_def
      FFS_INODE_F_TEST_def FFS_BLOCK_F_DELETED_def)

text \<open>
  Claim C4. The disk inode structure has the members magic, id, seq, parent_id, flags
  (16 bits), filename_len (8 bits) and ecc (32 bits), in this order, and is followed by
  the filename, whose length is the 8-bit member filename_len. The disk block structure
  has the members magic, id, seq, rank, inode_id, reserved16, flags (16 bits), data_len
  (16 bits) and ecc (32 bits), in this order, and is followed by the data, whose length
  is the 16-bit member data_len. The members the specification leaves without a width
  are 32 bits wide.
\<close>

theorem disk_record_members:
  "conforms ''fdi_'' ffs_disk_inode spec_disk_inode_record \<and>
   conforms ''fdb_'' ffs_disk_block spec_disk_block_record \<and>
   member_bits ffs_disk_inode = [32, 32, 32, 32, 16, 8, 32] \<and>
   member_bits ffs_disk_block = [32, 32, 32, 32, 32, 16, 16, 16, 32] \<and>
   map_prod id (strip_prefix ''fdi_'') ffs_disk_inode_payload = spec_disk_inode_payload \<and>
   map_prod id (strip_prefix ''fdb_'') ffs_disk_block_payload = spec_disk_block_payload \<and>
   map_of ffs_disk_inode (snd ffs_disk_inode_payload) = Some Uint8 \<and>
   map_of ffs_disk_block (snd ffs_disk_block_payload) = Some Uint16"
  by (simp add: ffs_disk_inode_def ffs_disk_block_def spec_disk_inode_record_def
      spec_disk_block_record_def member_bits_def strip_prefix_simps
      ffs_disk_inode_payload_def ffs_disk_block_payload_def
      spec_disk_inode_payload_def spec_disk_block_payload_def)

text \<open>
  Claim C3. The disk area header consists of four 32-bit magic words, a 32-bit length, a
  2-byte reserved word, the one-byte seq and the one-byte is_scratch; under every layout
  a C compiler may choose, \<^verbatim>\<open>fds_is_scratch\<close> lies at byte offset 23 from the start of
  the header, which is the value of \<^verbatim>\<open>FFS_AREA_OFFSET_IS_SCRATCH\<close>.
\<close>

theorem is_scratch_offset:
  assumes "valid_abi a"
  shows "map snd ffs_disk_area = spec_disk_area_header \<and>
         offsetof a ffs_disk_area ''fds_is_scratch'' = Some 23 \<and>
         offsetof a ffs_disk_area ''fds_is_scratch'' = Some FFS_AREA_OFFSET_IS_SCRATCH \<and>
         layout a 0 ffs_disk_area =
           [(''fds_magic'', 0), (''fds_length'', 16), (''reserved16'', 20),
            (''fds_seq'', 22), (''fds_is_scratch'', 23)]"
  using assms
  by (auto simp add: valid_abi_def offsetof_def ffs_disk_area_def align_up_def
      FFS_AREA_OFFSET_IS_SCRATCH_def spec_disk_area_header_def)

theorem is_scratch_offset_witness:
  "valid_abi natural_abi \<and>
   offsetof natural_abi ffs_disk_area ''fds_is_scratch'' = Some FFS_AREA_OFFSET_IS_SCRATCH \<and>
   FFS_AREA_OFFSET_IS_SCRATCH = 23"
  using is_scratch_offset [of natural_abi]
  by (simp add: valid_abi_examples FFS_AREA_OFFSET_IS_SCRATCH_def)

text \<open>
  Claim C1, as stated, fails: the declarations of \<^verbatim>\<open>ffs_disk_inode\<close> and
  \<^verbatim>\<open>ffs_disk_block\<close> have no packing attribute, and under natural alignment
  \<^verbatim>\<open>fdi_ecc\<close> lies at offset 20, not 19, and \<^verbatim>\<open>fdb_ecc\<close> at offset 28, not 26.
\<close>

theorem packed_records_counterexample:
  "valid_abi natural_abi \<and>
   offsetof natural_abi ffs_disk_inode ''fdi_ecc'' = Some 20 \<and>
   offsetof natural_abi ffs_disk_inode ''fdi_ecc'' \<noteq> Some 19 \<and>
   offsetof natural_abi ffs_disk_block ''fdb_ecc'' = Some 28 \<and>
   offsetof natural_abi ffs_disk_block ''fdb_ecc'' \<noteq> Some 26 \<and>
   layout natural_abi 0 ffs_disk_inode \<noteq> packed_layout 0 ffs_disk_inode \<and>
   layout natural_abi 0 ffs_disk_block \<noteq> packed_layout 0 ffs_disk_block"
  by (simp add: valid_abi_def offsetof_def ffs_disk_inode_def ffs_disk_block_def
      natural_abi_def align_up_def)

text \<open>
  Claim C1, amended. The members of both records lie in the order of their declaration.
  They are free of padding exactly when the compiler gives 32-bit integers alignment 1
  (inode record) or an alignment below 4 (block record): then \<^verbatim>\<open>fdi_ecc\<close> follows
  \<^verbatim>\<open>fdi_filename_len\<close> at offset 19 and \<^verbatim>\<open>fdb_ecc\<close> follows \<^verbatim>\<open>fdb_data_len\<close> at
  offset 26. Otherwise \<^verbatim>\<open>fdi_ecc\<close> lies at offset 20, after one byte of padding, and
  under alignment 4 \<^verbatim>\<open>fdb_ecc\<close> lies at offset 28, after two bytes of padding.
\<close>

theorem disk_record_padding:
  assumes "valid_abi a"
  shows "map fst (layout a 0 ffs_disk_inode) = map fst ffs_disk_inode \<and>
         map fst (layout a 0 ffs_disk_block) = map fst ffs_disk_block \<and>
         offsetof a ffs_disk_inode ''fdi_ecc'' = Some (if align32 a = 1 then 19 else 20) \<and>
         offsetof a ffs_disk_block ''fdb_ecc'' = Some (if align32 a = 4 then 28 else 26) \<and>
         (layout a 0 ffs_disk_inode = packed_layout 0 ffs_disk_inode) = (align32 a = 1) \<and>
         (layout a 0 ffs_disk_block = packed_layout 0 ffs_disk_block) = (align32 a \<noteq> 4)"
proof -
  note li = layout_disk_inode [OF assms] and lb = layout_disk_block [OF assms]
  have "map fst (layout a 0 ffs_disk_inode) = map fst ffs_disk_inode"
    unfolding li by (simp add: ffs_disk_inode_def)
  moreover have "map fst (layout a 0 ffs_disk_block) = map fst ffs_disk_block"
    unfolding lb by (simp add: ffs_disk_block_def)
  moreover have "offsetof a ffs_disk_inode ''fdi_ecc'' = Some (if align32 a = 1 then 19 else 20)"
    unfolding offsetof_def li by simp
  moreover have "offsetof a ffs_disk_block ''fdb_ecc'' = Some (if align32 a = 4 then 28 else 26)"
    unfolding offsetof_def lb by simp
  moreover have "(layout a 0 ffs_disk_inode = packed_layout 0 ffs_disk_inode) = (align32 a = 1)"
    unfolding li packed_layout_disk_inode by simp
  moreover have "(layout a 0 ffs_disk_block = packed_layout 0 ffs_disk_block) = (align32 a \<noteq> 4)"
    unfolding lb packed_layout_disk_block by simp
  ultimately show ?thesis by blast
qed

theorem disk_record_padding_witness:
  "valid_abi packed_abi \<and>
   offsetof packed_abi ffs_disk_inode ''fdi_ecc'' = Some 19 \<and>
   offsetof packed_abi ffs_disk_block ''fdb_ecc'' = Some 26 \<and>
   layout packed_abi 0 ffs_disk_inode = packed_layout 0 ffs_disk_inode \<and>
   layout packed_abi 0 ffs_disk_block = packed_layout 0 ffs_disk_block"
  using disk_record_padding [OF valid_abi_examples(2)]
  by (simp add: valid_abi_examples packed_abi_aligns)

section \<open>Reference counts\<close>

lemma inc_refcnt_funpow: "fi_refcnt ((inc_refcnt ^^ n) i) = fi_refcnt i + word_of_nat n"
  by (induction n) (simp_all add: inc_refcnt_def)

lemma unat_u8_add_nat: "unat ((x::u8) + word_of_nat n) = (unat x + n) mod 256"
  by (simp add: unat_word_ariths unat_of_nat mod_add_right_eq)

text \<open>
  Claim C9. The reference count of an inode is an 8-bit counter: it never exceeds 255,
  after \<open>n\<close> increments it holds the number of references modulo 256, and the 256th
  increment of a count that started at zero brings it back to zero. For an inode fresh
  from \<open>alloc\<close>, whose count is 1 for the allocation reference, the 255th \<open>open\<close>
  does so.
\<close>

theorem refcnt_wraps:
  "unat (fi_refcnt i) \<le> 255 \<and>
   unat (fi_refcnt ((inc_refcnt ^^ n) i)) = (unat (fi_refcnt i) + n) mod 256 \<and>
   fi_refcnt ((inc_refcnt ^^ 256) (i\<lparr>fi_refcnt := 0\<rparr>)) = 0 \<and>
   fi_refcnt ((inc_refcnt ^^ 255) ffs_inode_alloc) = 0 \<and>
   fi_refcnt (inc_refcnt (i\<lparr>fi_refcnt := 255\<rparr>)) = 0"
proof -
  have "unat (fi_refcnt i) < 2 ^ 8"
    using unsigned_less [of "fi_refcnt i"] by simp
  then have a: "unat (fi_refcnt i) \<le> 255" by simp
  have b: "unat (fi_refcnt ((inc_refcnt ^^ n) i)) = (unat (fi_refcnt i) + n) mod 256"
    by (simp only: inc_refcnt_funpow unat_u8_add_nat)
  have c: "fi_refcnt ((inc_refcnt ^^ 256) (i\<lparr>fi_refcnt := 0\<rparr>)) = 0"
    by (simp add: inc_refcnt_funpow)
  have d: "fi_refcnt ((inc_refcnt ^^ 255) ffs_inode_alloc) = 0"
    by (simp add: inc_refcnt_funpow ffs_inode_alloc_def)
  have e: "fi_refcnt (inc_refcnt (i\<lparr>fi_refcnt := 255\<rparr>)) = 0"
    by (simp add: inc_refcnt_def)
  from a b c d e show ?thesis by blast
qed

end
